theory Spec2Isabelle
  imports Main
begin

section \<open>JavaScript arrays\<close>

text \<open>
  \<^verbatim>\<open>Array.prototype.indexOf\<close>: the first index whose element is strictly equal to the
  argument, \<open>-1\<close> when there is none. The arrays below hold object references, on which
  strict equality is identity of the reference.
\<close>

fun indexOfFrom :: "'a list \<Rightarrow> 'a \<Rightarrow> int \<Rightarrow> int" where
  "indexOfFrom [] x k = -1"
| "indexOfFrom (y # ys) x k = (if y = x then k else indexOfFrom ys x (k + 1))"

definition indexOf :: "'a list \<Rightarrow> 'a \<Rightarrow> int" where
  "indexOf xs x = indexOfFrom xs x 0"

text \<open>
  \<^verbatim>\<open>Array.prototype.splice(start, deleteCount, ...items)\<close>: a negative start counts from the
  end of the array, a start beyond the length is the length, and the delete count is cut
  to what is left after the start.
\<close>

definition splice :: "'a list \<Rightarrow> int \<Rightarrow> int \<Rightarrow> 'a list \<Rightarrow> 'a list" where
  "splice xs start deleteCount items =
     (let len = int (length xs);
          actualStart = (if start < 0 then max (len + start) 0 else min start len);
          actualDeleteCount = min (max deleteCount 0) (len - actualStart)
      in take (nat actualStart) xs @ items @ drop (nat (actualStart + actualDeleteCount)) xs)"

section \<open>Objects\<close>

text \<open>
  Backing cell records (\<^verbatim>\<open>ICell\<close>) and \<^verbatim>\<open>ViewCell\<close>s are JavaScript objects: they are
  shared by reference between the notebook model, the editor's \<^verbatim>\<open>viewCells\<close> array and the
  list widget, and \<^verbatim>\<open>indexOf\<close> compares them by identity. Both live in a store, addressed
  by natural numbers; \<^verbatim>\<open>new\<close> takes the next free address. The numbers that occur are
  line counts and pixel heights, modelled as integers.
\<close>

type_synonym cell_ref = nat
type_synonym view_ref = nat

datatype CellType = markdown | code

datatype IOutput = IOutput string

record ICell =
  cell_type :: CellType
  source :: "string list"
  outputs :: "IOutput list"

text \<open>The text model of the editor widget, as far as \<^verbatim>\<open>getLinesContent()\<close> reads it.\<close>

record ITextModel =
  linesContent :: "string list"

text \<open>
  The private fields \<^verbatim>\<open>_textModel\<close>, \<^verbatim>\<open>_mdRenderer\<close>, \<^verbatim>\<open>_html\<close> and
  \<^verbatim>\<open>_dynamicHeight\<close> start as \<^verbatim>\<open>null\<close>; the markdown renderer carries no state of its
  own, so only whether it has been created is kept.
\<close>

record ViewCell =
  cell :: cell_ref
  isEditing :: bool
  textModel :: "ITextModel option"
  mdRenderer :: bool
  html :: "string option"
  dynamicHeight :: "int option"

record Heap =
  icells :: "cell_ref \<Rightarrow> ICell"
  vcells :: "view_ref \<Rightarrow> ViewCell"
  nextICell :: cell_ref
  nextViewCell :: view_ref

definition newline :: string where
  "newline = [CHR 0x0A]"

definition update_view :: "view_ref \<Rightarrow> (ViewCell \<Rightarrow> ViewCell) \<Rightarrow> Heap \<Rightarrow> Heap" where
  "update_view this f H = H\<lparr>vcells := (vcells H)(this := f (vcells H this))\<rparr>"

definition update_icell :: "cell_ref \<Rightarrow> (ICell \<Rightarrow> ICell) \<Rightarrow> Heap \<Rightarrow> Heap" where
  "update_icell r f H = H\<lparr>icells := (icells H)(r := f (icells H r))\<rparr>"

text \<open>An object literal for a cell record: a new object at the next free address.\<close>

definition new_ICell :: "ICell \<Rightarrow> Heap \<Rightarrow> cell_ref \<times> Heap" where
  "new_ICell c H =
     (nextICell H, H\<lparr>icells := (icells H)(nextICell H := c), nextICell := Suc (nextICell H)\<rparr>)"

text \<open>\<^verbatim>\<open>new ViewCell(cell, isEditing, modelService, modeService)\<close>\<close>

definition new_ViewCell :: "cell_ref \<Rightarrow> bool \<Rightarrow> Heap \<Rightarrow> view_ref \<times> Heap" where
  "new_ViewCell r editing H =
     (nextViewCell H,
      H\<lparr>vcells := (vcells H)(nextViewCell H :=
           \<lparr>cell = r, isEditing = editing, textModel = None, mdRenderer = False,
            html = None, dynamicHeight = None\<rparr>),
        nextViewCell := Suc (nextViewCell H)\<rparr>)"

section \<open>ViewCell\<close>

definition cellType :: "Heap \<Rightarrow> view_ref \<Rightarrow> CellType" where
  "cellType H this = cell_type (icells H (cell (vcells H this)))"

definition lineCount :: "Heap \<Rightarrow> view_ref \<Rightarrow> nat" where
  "lineCount H this = length (source (icells H (cell (vcells H this))))"

definition hasDynamicHeight :: "Heap \<Rightarrow> view_ref \<Rightarrow> bool" where
  "hasDynamicHeight H this =
     (if dynamicHeight (vcells H this) \<noteq> None then False else True)"

definition setDynamicHeight :: "view_ref \<Rightarrow> int \<Rightarrow> Heap \<Rightarrow> Heap" where
  "setDynamicHeight this height H = update_view this (\<lambda>v. v\<lparr>dynamicHeight := Some height\<rparr>) H"

text \<open>
  \<^verbatim>\<open>if (this._dynamicHeight)\<close> tests the field for truthiness: \<^verbatim>\<open>null\<close> and the number
  \<open>0\<close> are both falsy.
\<close>

fun truthy_number :: "int option \<Rightarrow> bool" where
  "truthy_number None = False"
| "truthy_number (Some n) = (n \<noteq> 0)"

definition heuristicHeight :: "Heap \<Rightarrow> view_ref \<Rightarrow> int \<Rightarrow> int" where
  "heuristicHeight H this lineHeight =
     (if cellType H this = markdown then 100
      else max (int (lineCount H this) + 1) 5 * lineHeight + 16)"

definition getHeight :: "Heap \<Rightarrow> view_ref \<Rightarrow> int \<Rightarrow> int" where
  "getHeight H this lineHeight =
     (case dynamicHeight (vcells H this) of
        Some d \<Rightarrow> if truthy_number (Some d) then d else heuristicHeight H this lineHeight
      | None \<Rightarrow> heuristicHeight H this lineHeight)"

definition setText :: "view_ref \<Rightarrow> string list \<Rightarrow> Heap \<Rightarrow> Heap" where
  "setText this strs H =
     update_view this (\<lambda>v. v\<lparr>html := None\<rparr>)
       (update_icell (cell (vcells H this))
          (\<lambda>c. c\<lparr>source := map (\<lambda>str. str @ newline) strs\<rparr>) H)"

definition save :: "view_ref \<Rightarrow> Heap \<Rightarrow> Heap" where
  "save this H =
     (case textModel (vcells H this) of
        Some tm \<Rightarrow>
          if isEditing (vcells H this)
          then update_icell (cell (vcells H this))
                 (\<lambda>c. c\<lparr>source := map (\<lambda>str. str @ newline) (linesContent tm)\<rparr>) H
          else H
      | None \<Rightarrow> H)"

definition getText :: "Heap \<Rightarrow> view_ref \<Rightarrow> string" where
  "getText H this = concat (source (icells H (cell (vcells H this))))"

definition getMDRenderer :: "view_ref \<Rightarrow> Heap \<Rightarrow> Heap" where
  "getMDRenderer this H =
     (if \<not> mdRenderer (vcells H this) then update_view this (\<lambda>v. v\<lparr>mdRenderer := True\<rparr>) H
      else H)"

text \<open>\<^verbatim>\<open>if (this._html)\<close>: \<^verbatim>\<open>null\<close> and the empty string are both falsy.\<close>

fun truthy_string :: "string option \<Rightarrow> bool" where
  "truthy_string None = False"
| "truthy_string (Some s) = (s \<noteq> [])"

text \<open>
  \<^verbatim>\<open>getHTML\<close>; the markdown converter \<^verbatim>\<open>marked\<close> is an imported library, a function of
  the text, taken as a parameter.
\<close>

definition getHTML :: "(string \<Rightarrow> string) \<Rightarrow> view_ref \<Rightarrow> Heap \<Rightarrow> string option \<times> Heap" where
  "getHTML marked this H =
     (if cellType H this = markdown then
        (if truthy_string (html (vcells H this)) then (html (vcells H this), H)
         else
           (let H1 = getMDRenderer this H;
                rendered = marked (getText H1 this);
                H2 = update_view this (\<lambda>v. v\<lparr>html := Some rendered\<rparr>) H1
            in (html (vcells H2 this), H2)))
      else (None, H))"

text \<open>
  \<^verbatim>\<open>getTextModel\<close>; the model service's \<^verbatim>\<open>createModel\<close> is imported, taken as a parameter
  from the content to the text model it builds.
\<close>

definition getTextModel :: "(string \<Rightarrow> ITextModel) \<Rightarrow> view_ref \<Rightarrow> Heap \<Rightarrow> ITextModel \<times> Heap" where
  "getTextModel createModel this H =
     (case textModel (vcells H this) of
        None \<Rightarrow>
          (let content = concat (source (icells H (cell (vcells H this))));
               tm = createModel content
           in (tm, update_view this (\<lambda>v. v\<lparr>textModel := Some tm\<rparr>) H))
      | Some tm \<Rightarrow> (tm, H))"

text \<open>
  What can happen to a \<^verbatim>\<open>ViewCell\<close> between two reads: a call of one of its methods that
  write, an assignment to its public field \<^verbatim>\<open>isEditing\<close>, or an edit made in the editor
  widget to the text model the cell holds.
\<close>

datatype CellOp =
    SetDynamicHeight int
  | SetText "string list"
  | Save
  | GetHTML
  | GetTextModel
  | SetIsEditing bool
  | EditBuffer "string list"

fun is_SetDynamicHeight :: "CellOp \<Rightarrow> bool" where
  "is_SetDynamicHeight (SetDynamicHeight h) = True"
| "is_SetDynamicHeight _ = False"

fun cell_op :: "(string \<Rightarrow> string) \<Rightarrow> (string \<Rightarrow> ITextModel) \<Rightarrow> view_ref \<Rightarrow> CellOp \<Rightarrow> Heap \<Rightarrow> Heap" where
  "cell_op marked createModel this (SetDynamicHeight h) H = setDynamicHeight this h H"
| "cell_op marked createModel this (SetText strs) H = setText this strs H"
| "cell_op marked createModel this Save H = save this H"
| "cell_op marked createModel this GetHTML H = snd (getHTML marked this H)"
| "cell_op marked createModel this GetTextModel H = snd (getTextModel createModel this H)"
| "cell_op marked createModel this (SetIsEditing b) H = update_view this (\<lambda>v. v\<lparr>isEditing := b\<rparr>) H"
| "cell_op marked createModel this (EditBuffer ls) H =
     update_view this (\<lambda>v. v\<lparr>textModel := map_option (\<lambda>tm. tm\<lparr>linesContent := ls\<rparr>) (textModel v)\<rparr>) H"

fun cell_ops :: "(string \<Rightarrow> string) \<Rightarrow> (string \<Rightarrow> ITextModel) \<Rightarrow> view_ref \<Rightarrow> CellOp list \<Rightarrow> Heap \<Rightarrow> Heap" where
  "cell_ops marked createModel this [] H = H"
| "cell_ops marked createModel this (x # xs) H =
     cell_ops marked createModel this xs (cell_op marked createModel this x H)"

section \<open>NotebookEditor\<close>

datatype Direction = above | below

text \<open>
  Reading a property of \<^verbatim>\<open>undefined\<close> throws a \<^verbatim>\<open>TypeError\<close>; the non-null assertion
  \<^verbatim>\<open>this.model!\<close> is erased by the compiler and checks nothing at run time.
\<close>

datatype error = TypeError

text \<open>The notebook model, as far as \<^verbatim>\<open>getNotebook().cells\<close> reads it: an array of records.\<close>

record NotebookEditorModel =
  cells :: "cell_ref list"

text \<open>
  Modelled from the spec: \<^verbatim>\<open>NotebookEditorModel.insertCell(record, index)\<close>, whose file
  (\<^verbatim>\<open>notebookEditorInput.ts\<close>) is not among the sources. It inserts the record into the
  ordered sequence of cells at the index; for an index outside the array, on which the spec
  is silent, the rule of \<^verbatim>\<open>Array.prototype.splice\<close> is taken.
\<close>

definition model_insertCell :: "cell_ref \<Rightarrow> int \<Rightarrow> NotebookEditorModel \<Rightarrow> NotebookEditorModel" where
  "model_insertCell r index m = m\<lparr>cells := splice (cells m) index 0 [r]\<rparr>"

text \<open>
  Modelled from the spec: \<^verbatim>\<open>NotebookEditorModel.deleteCell(record)\<close>, whose file is not
  among the sources: removal of the record, located by identity. For a record that is not
  in the sequence the spec is silent; the sequence is then left as it is here, and the
  theorem below about an anchor that is missing does not rest on this case: it takes the
  method as a parameter.
\<close>

definition model_deleteCell :: "cell_ref \<Rightarrow> NotebookEditorModel \<Rightarrow> NotebookEditorModel" where
  "model_deleteCell r m =
     (let index = indexOf (cells m) r
      in if index < 0 then m else m\<lparr>cells := splice (cells m) index 1 []\<rparr>)"

text \<open>
  The list widget keeps its elements in their rendered order, each with the height that
  \<^verbatim>\<open>updateDynamicHeight\<close> has patched in, if any.
\<close>

type_synonym VirtualList = "(view_ref \<times> int option) list"

text \<open>
  Modelled from the spec: \<^verbatim>\<open>WorkbenchList.splice(start, deleteCount, elements)\<close>, imported
  and not among the sources: the structural mutation of the rendered order. For a start
  outside the list, on which the spec is silent, the rule of \<^verbatim>\<open>Array.prototype.splice\<close>
  is taken.
\<close>

definition list_splice :: "int \<Rightarrow> int \<Rightarrow> view_ref list \<Rightarrow> VirtualList \<Rightarrow> VirtualList" where
  "list_splice start deleteCount elements l =
     splice l start deleteCount (map (\<lambda>e. (e, None)) elements)"

text \<open>
  Modelled from the spec: \<^verbatim>\<open>WorkbenchList.updateDynamicHeight(index, cell, newHeight)\<close>,
  imported and not among the sources: it patches the height of the single item at the
  index; if the index does not correspond to the cell, the call is a no-op, not an error.
\<close>

definition list_updateDynamicHeight :: "int \<Rightarrow> view_ref \<Rightarrow> int \<Rightarrow> VirtualList \<Rightarrow> VirtualList" where
  "list_updateDynamicHeight index element height l =
     (if 0 \<le> index \<and> index < int (length l) \<and> fst (l ! nat index) = element
      then l[nat index := (element, Some height)]
      else l)"

datatype ListCall =
    ListSplice int int "view_ref list"
  | ListUpdateDynamicHeight int view_ref int

fun run_ListCall :: "ListCall \<Rightarrow> VirtualList \<Rightarrow> VirtualList" where
  "run_ListCall (ListSplice start deleteCount elements) l = list_splice start deleteCount elements l"
| "run_ListCall (ListUpdateDynamicHeight index element height) l =
     list_updateDynamicHeight index element height l"

text \<open>
  The editor with the store its objects live in. \<^verbatim>\<open>model\<close> and \<^verbatim>\<open>list\<close> (here
  \<open>vlist\<close>) may be \<^verbatim>\<open>undefined\<close>. \<^verbatim>\<open>timeouts\<close> holds the callbacks that \<^verbatim>\<open>setTimeout\<close> has scheduled
  and that have not run yet, each with the cell and the height it has captured.
  \<^verbatim>\<open>listCalls\<close> is not a field of the class: it records, in order, the calls that the
  editor has made on its list, so that whether a call is made can be stated.
\<close>

record NotebookEditor =
  heap :: Heap
  viewCells :: "view_ref list"
  model :: "NotebookEditorModel option"
  vlist :: "VirtualList option"
  timeouts :: "(view_ref \<times> int) list"
  listCalls :: "ListCall list"

text \<open>\<^verbatim>\<open>this.list?.f(...)\<close>: nothing happens when the list is \<^verbatim>\<open>undefined\<close>.\<close>

definition list_call :: "ListCall \<Rightarrow> NotebookEditor \<Rightarrow> NotebookEditor" where
  "list_call c ed =
     (case vlist ed of
        None \<Rightarrow> ed
      | Some l \<Rightarrow> ed\<lparr>vlist := Some (run_ListCall c l), listCalls := listCalls ed @ [c]\<rparr>)"

text \<open>
  \<^verbatim>\<open>onHide\<close>. The call \<^verbatim>\<open>super.onHide()\<close> goes to the imported base class, which has no
  access to the private fields modelled here.
\<close>

definition onHide :: "NotebookEditor \<Rightarrow> NotebookEditor" where
  "onHide ed =
     ed\<lparr>heap := fold (\<lambda>c H. update_view c (\<lambda>v. v\<lparr>isEditing := False\<rparr>) H) (viewCells ed) (heap ed)\<rparr>"

text \<open>\<^verbatim>\<open>layoutElement\<close> only schedules; the function passed to \<^verbatim>\<open>setTimeout\<close> follows.\<close>

definition layoutElement :: "view_ref \<Rightarrow> int \<Rightarrow> NotebookEditor \<Rightarrow> NotebookEditor" where
  "layoutElement c height ed = ed\<lparr>timeouts := timeouts ed @ [(c, height)]\<rparr>"

definition layoutElement_timeout :: "view_ref \<Rightarrow> int \<Rightarrow> NotebookEditor \<Rightarrow> error + NotebookEditor" where
  "layoutElement_timeout c height ed =
     (case model ed of
        None \<Rightarrow> Inl TypeError
      | Some m \<Rightarrow>
          (let index = indexOf (cells m) (cell (vcells (heap ed) c))
           in Inr (list_call (ListUpdateDynamicHeight index c height) ed)))"

text \<open>The next turn of the event loop: the oldest scheduled callback runs.\<close>

definition runTimeout :: "NotebookEditor \<Rightarrow> error + NotebookEditor" where
  "runTimeout ed =
     (case timeouts ed of
        [] \<Rightarrow> Inr ed
      | (c, height) # rest \<Rightarrow> layoutElement_timeout c height (ed\<lparr>timeouts := rest\<rparr>))"

text \<open>
  \<^verbatim>\<open>insertEmptyNotebookCell\<close>. The new objects are created before the model is read; when
  that read throws, nothing that can be reached has changed.
\<close>

definition insertEmptyNotebookCell ::
  "view_ref \<Rightarrow> CellType \<Rightarrow> Direction \<Rightarrow> NotebookEditor \<Rightarrow> error + NotebookEditor" where
  "insertEmptyNotebookCell c type direction ed =
     (let (r, H1) = new_ICell \<lparr>cell_type = type, source = [], outputs = []\<rparr> (heap ed);
          (newCell, H2) = new_ViewCell r (type = markdown) H1
      in case model ed of
           None \<Rightarrow> Inl TypeError
         | Some m \<Rightarrow>
             (let index = indexOf (cells m) (cell (vcells H2 c));
                  insertIndex = (if direction = above then index else index + 1);
                  ed1 = ed\<lparr>heap := H2, viewCells := splice (viewCells ed) insertIndex 0 [newCell]\<rparr>;
                  ed2 = ed1\<lparr>model := Some (model_insertCell (cell (vcells H2 newCell)) insertIndex m)\<rparr>
              in Inr (list_call (ListSplice insertIndex 0 [newCell]) ed2)))"

definition deleteNotebookCell :: "view_ref \<Rightarrow> NotebookEditor \<Rightarrow> error + NotebookEditor" where
  "deleteNotebookCell c ed =
     (case model ed of
        None \<Rightarrow> Inl TypeError
      | Some m \<Rightarrow>
          (let index = indexOf (cells m) (cell (vcells (heap ed) c));
               ed1 = ed\<lparr>viewCells := splice (viewCells ed) index 1 []\<rparr>;
               ed2 = ed1\<lparr>model := Some (model_deleteCell (cell (vcells (heap ed) c)) m)\<rparr>
           in Inr (list_call (ListSplice index 1 []) ed2)))"

text \<open>
  The same two operations with the methods of the model and of the list, which are not
  among the sources, as parameters. A call of such a method gives how it completed, by
  returning or by throwing, and its object as the call left it; the operation gives how it
  completed and the editor at that moment. An exception leaves the operation at once, with
  what has been assigned until then in place. The methods work on their own object: the
  editor's \<^verbatim>\<open>viewCells\<close> is private to the editor.
\<close>

datatype completion = Returns | Throws

definition list_splice_with ::
  "(int \<Rightarrow> int \<Rightarrow> view_ref list \<Rightarrow> VirtualList \<Rightarrow> completion \<times> VirtualList) \<Rightarrow>
   int \<Rightarrow> int \<Rightarrow> view_ref list \<Rightarrow> NotebookEditor \<Rightarrow> completion \<times> NotebookEditor" where
  "list_splice_with listSplice start deleteCount elements ed =
     (case vlist ed of
        None \<Rightarrow> (Returns, ed)
      | Some l \<Rightarrow>
          (case listSplice start deleteCount elements l of
             (k, l') \<Rightarrow>
               (k, ed\<lparr>vlist := Some l',
                      listCalls := listCalls ed @ [ListSplice start deleteCount elements]\<rparr>)))"

definition insertEmptyNotebookCell_with ::
  "(cell_ref \<Rightarrow> int \<Rightarrow> NotebookEditorModel \<Rightarrow> completion \<times> NotebookEditorModel) \<Rightarrow>
   (int \<Rightarrow> int \<Rightarrow> view_ref list \<Rightarrow> VirtualList \<Rightarrow> completion \<times> VirtualList) \<Rightarrow>
   view_ref \<Rightarrow> CellType \<Rightarrow> Direction \<Rightarrow> NotebookEditor \<Rightarrow> completion \<times> NotebookEditor" where
  "insertEmptyNotebookCell_with insertCell listSplice c type direction ed =
     (let (r, H1) = new_ICell \<lparr>cell_type = type, source = [], outputs = []\<rparr> (heap ed);
          (newCell, H2) = new_ViewCell r (type = markdown) H1
      in case model ed of
           None \<Rightarrow> (Throws, ed)
         | Some m \<Rightarrow>
             (let index = indexOf (cells m) (cell (vcells H2 c));
                  insertIndex = (if direction = above then index else index + 1);
                  ed1 = ed\<lparr>heap := H2, viewCells := splice (viewCells ed) insertIndex 0 [newCell]\<rparr>
              in case insertCell (cell (vcells H2 newCell)) insertIndex m of
                   (Throws, m') \<Rightarrow> (Throws, ed1\<lparr>model := Some m'\<rparr>)
                 | (Returns, m') \<Rightarrow>
                     list_splice_with listSplice insertIndex 0 [newCell] (ed1\<lparr>model := Some m'\<rparr>)))"

definition deleteNotebookCell_with ::
  "(cell_ref \<Rightarrow> NotebookEditorModel \<Rightarrow> completion \<times> NotebookEditorModel) \<Rightarrow>
   (int \<Rightarrow> int \<Rightarrow> view_ref list \<Rightarrow> VirtualList \<Rightarrow> completion \<times> VirtualList) \<Rightarrow>
   view_ref \<Rightarrow> NotebookEditor \<Rightarrow> completion \<times> NotebookEditor" where
  "deleteNotebookCell_with deleteCell listSplice c ed =
     (case model ed of
        None \<Rightarrow> (Throws, ed)
      | Some m \<Rightarrow>
          (let index = indexOf (cells m) (cell (vcells (heap ed) c));
               ed1 = ed\<lparr>viewCells := splice (viewCells ed) index 1 []\<rparr>
           in case deleteCell (cell (vcells (heap ed) c)) m of
                (Throws, m') \<Rightarrow> (Throws, ed1\<lparr>model := Some m'\<rparr>)
              | (Returns, m') \<Rightarrow>
                  list_splice_with listSplice index 1 [] (ed1\<lparr>model := Some m'\<rparr>)))"

text \<open>Structural edits, and a sequence of them that stops at the first exception.\<close>

datatype EditOp =
    InsertCell view_ref CellType Direction
  | DeleteCell view_ref

fun anchor :: "EditOp \<Rightarrow> view_ref" where
  "anchor (InsertCell c type direction) = c"
| "anchor (DeleteCell c) = c"

fun edit :: "EditOp \<Rightarrow> NotebookEditor \<Rightarrow> error + NotebookEditor" where
  "edit (InsertCell c type direction) ed = insertEmptyNotebookCell c type direction ed"
| "edit (DeleteCell c) ed = deleteNotebookCell c ed"

fun edits :: "EditOp list \<Rightarrow> NotebookEditor \<Rightarrow> error + NotebookEditor" where
  "edits [] ed = Inr ed"
| "edits (e # es) ed = (case edit e ed of Inl err \<Rightarrow> Inl err | Inr ed' \<Rightarrow> edits es ed')"

text \<open>
  The anchor is an existing \<^verbatim>\<open>ViewCell\<close>, and the record it wraps is in the backing
  model's array.
\<close>

definition in_model :: "view_ref \<Rightarrow> NotebookEditor \<Rightarrow> bool" where
  "in_model c ed =
     (case model ed of
        None \<Rightarrow> False
      | Some m \<Rightarrow> c < nextViewCell (heap ed) \<and> cell (vcells (heap ed) c) \<in> set (cells m))"

text \<open>Every operation of the sequence finds its anchor in the model when its turn comes.\<close>

fun anchors_in_model :: "EditOp list \<Rightarrow> NotebookEditor \<Rightarrow> bool" where
  "anchors_in_model [] ed = True"
| "anchors_in_model (e # es) ed =
     (in_model (anchor e) ed \<and>
      (case edit e ed of Inl err \<Rightarrow> True | Inr ed' \<Rightarrow> anchors_in_model es ed'))"

text \<open>
  The three orderings agree: the records that the \<^verbatim>\<open>ViewCell\<close> array wraps are the
  model's array, and the list, when there is one, shows the \<^verbatim>\<open>ViewCell\<close> array.
\<close>

definition in_sync :: "NotebookEditor \<Rightarrow> bool" where
  "in_sync ed =
     (case model ed of
        None \<Rightarrow> False
      | Some m \<Rightarrow>
          map (\<lambda>v. cell (vcells (heap ed) v)) (viewCells ed) = cells m \<and>
          (case vlist ed of None \<Rightarrow> True | Some l \<Rightarrow> map fst l = viewCells ed))"

text \<open>Every \<^verbatim>\<open>ViewCell\<close> of the array has been created: its address is below the next free one.\<close>

definition allocated :: "NotebookEditor \<Rightarrow> bool" where
  "allocated ed = list_all (\<lambda>v. v < nextViewCell (heap ed)) (viewCells ed)"

section \<open>Example states\<close>

text \<open>A markdown converter and a model service to run the methods with.\<close>

definition exampleMarked :: "string \<Rightarrow> string" where
  "exampleMarked s = ''<p>'' @ s @ ''</p>''"

definition exampleCreateModel :: "string \<Rightarrow> ITextModel" where
  "exampleCreateModel s = \<lparr>linesContent = [s]\<rparr>"

text \<open>
  Two cells: \<open>0\<close> is a code cell of ten lines that has not been measured; \<open>1\<close> is a
  markdown cell in editing mode, with an edit buffer, rendered HTML in its cache and a
  measured height.
\<close>

definition exampleHeap :: Heap where
  "exampleHeap =
     \<lparr>icells = (\<lambda>r. if r = 0
                    then \<lparr>cell_type = code, source = replicate 10 (''x = 1'' @ newline), outputs = []\<rparr>
                    else \<lparr>cell_type = markdown, source = [''old'' @ newline], outputs = []\<rparr>),
      vcells = (\<lambda>v. if v = 0
                    then \<lparr>cell = 0, isEditing = False, textModel = None, mdRenderer = False,
                          html = None, dynamicHeight = None\<rparr>
                    else \<lparr>cell = 1, isEditing = True,
                          textModel = Some \<lparr>linesContent = [''a'', ''b'']\<rparr>, mdRenderer = True,
                          html = Some ''<p>old</p>'', dynamicHeight = Some 120\<rparr>),
      nextICell = 2, nextViewCell = 2\<rparr>"

definition exampleOps :: "CellOp list" where
  "exampleOps =
     [SetText [''y''], Save, GetHTML, GetTextModel, SetIsEditing True, EditBuffer [''z'']]"

definition measuringOps :: "CellOp list" where
  "measuringOps = [SetText [''y''], SetDynamicHeight 0, SetText [''y'', ''z''], Save]"

text \<open>
  An editor on a notebook of three cells, \<^verbatim>\<open>ViewCell\<close> \<open>v\<close> wrapping record \<open>v\<close>; cell
  \<open>1\<close> is a markdown cell in editing mode whose buffer holds two lines that have not
  been written to its record.
\<close>

definition threeCells :: Heap where
  "threeCells =
     \<lparr>icells = (\<lambda>r. \<lparr>cell_type = (if r = 1 then markdown else code), source = [], outputs = []\<rparr>),
      vcells = (\<lambda>v. \<lparr>cell = v, isEditing = (v = 1),
                      textModel = (if v = 1 then Some \<lparr>linesContent = [''a'', ''b'']\<rparr> else None),
                      mdRenderer = False, html = None, dynamicHeight = None\<rparr>),
      nextICell = 3, nextViewCell = 3\<rparr>"

definition exampleEditor :: NotebookEditor where
  "exampleEditor =
     \<lparr>heap = threeCells, viewCells = [0, 1, 2], model = Some \<lparr>cells = [0, 1, 2]\<rparr>,
      vlist = Some [(0, None), (1, None), (2, None)], timeouts = [], listCalls = []\<rparr>"

text \<open>The same editor after cell \<open>1\<close> has been deleted.\<close>

definition deletedEditor :: NotebookEditor where
  "deletedEditor =
     \<lparr>heap = threeCells, viewCells = [0, 2], model = Some \<lparr>cells = [0, 2]\<rparr>,
      vlist = Some [(0, None), (2, None)], timeouts = [], listCalls = [ListSplice 1 1 []]\<rparr>"

text \<open>
  The same again, when a height update for cell \<open>1\<close> had been scheduled before the
  deletion and has not run yet.
\<close>

definition pendingEditor :: NotebookEditor where
  "pendingEditor =
     \<lparr>heap = threeCells, viewCells = [0, 2], model = Some \<lparr>cells = [0, 2]\<rparr>,
      vlist = Some [(0, None), (2, None)], timeouts = [(1, 120)], listCalls = [ListSplice 1 1 []]\<rparr>"

text \<open>
  A model and a list to run the operations with that throw where the spec says nothing:
  for an index outside the array, and for a record that is not in it.
\<close>

definition strict_insertCell :: "cell_ref \<Rightarrow> int \<Rightarrow> NotebookEditorModel \<Rightarrow> completion \<times> NotebookEditorModel" where
  "strict_insertCell r index m =
     (if 0 \<le> index \<and> index \<le> int (length (cells m)) then (Returns, model_insertCell r index m)
      else (Throws, m))"

definition strict_deleteCell :: "cell_ref \<Rightarrow> NotebookEditorModel \<Rightarrow> completion \<times> NotebookEditorModel" where
  "strict_deleteCell r m =
     (if r \<in> set (cells m) then (Returns, model_deleteCell r m) else (Throws, m))"

definition strict_listSplice ::
  "int \<Rightarrow> int \<Rightarrow> view_ref list \<Rightarrow> VirtualList \<Rightarrow> completion \<times> VirtualList" where
  "strict_listSplice start deleteCount elements l =
     (if 0 \<le> start \<and> start \<le> int (length l) then (Returns, list_splice start deleteCount elements l)
      else (Throws, l))"

definition exampleEdits :: "EditOp list" where
  "exampleEdits =
     [InsertCell 1 markdown above, DeleteCell 0, InsertCell 2 code below, DeleteCell 3]"

lemmas example_defs = exampleMarked_def exampleCreateModel_def exampleHeap_def exampleOps_def
  measuringOps_def threeCells_def exampleEditor_def deletedEditor_def pendingEditor_def
  exampleEdits_def strict_insertCell_def strict_deleteCell_def strict_listSplice_def

lemmas editor_defs = insertEmptyNotebookCell_def deleteNotebookCell_def layoutElement_def
  layoutElement_timeout_def runTimeout_def onHide_def list_call_def list_splice_def
  list_updateDynamicHeight_def model_insertCell_def model_deleteCell_def new_ICell_def
  new_ViewCell_def indexOf_def splice_def in_sync_def in_model_def allocated_def
  update_view_def Let_def

section \<open>Arrays: \<open>indexOf\<close> and \<open>splice\<close>\<close>

lemma indexOfFrom_notin: "x \<notin> set xs \<Longrightarrow> indexOfFrom xs x k = -1"
  by (induction xs arbitrary: k) auto

lemma indexOfFrom_first:
  "i < length xs \<Longrightarrow> xs ! i = x \<Longrightarrow> x \<notin> set (take i xs) \<Longrightarrow> indexOfFrom xs x k = k + int i"
proof (induction xs arbitrary: i k)
  case Nil
  then show ?case by simp
next
  case (Cons y ys)
  show ?case
  proof (cases i)
    case 0
    with Cons.prems show ?thesis by simp
  next
    case (Suc j)
    with Cons.prems have "j < length ys" "ys ! j = x" "x \<notin> set (take j ys)" "y \<noteq> x"
      by auto
    with Cons.IH [of j "k + 1"] Suc show ?thesis by simp
  qed
qed

lemma indexOfFrom_in:
  "x \<in> set xs \<Longrightarrow> \<exists>i<length xs. indexOfFrom xs x k = k + int i \<and> xs ! i = x \<and> x \<notin> set (take i xs)"
proof (induction xs arbitrary: k)
  case Nil
  then show ?case by simp
next
  case (Cons y ys)
  show ?case
  proof (cases "y = x")
    case True
    then show ?thesis by (intro exI [of _ 0]) simp
  next
    case False
    with Cons.prems have "x \<in> set ys" by simp
    from Cons.IH [OF this, of "k + 1"] obtain i where
      i: "i < length ys" "indexOfFrom ys x (k + 1) = k + 1 + int i" "ys ! i = x" "x \<notin> set (take i ys)"
      by blast
    with False show ?thesis by (intro exI [of _ "Suc i"]) simp
  qed
qed

lemma indexOf_notin: "x \<notin> set xs \<Longrightarrow> indexOf xs x = -1"
  by (simp add: indexOf_def indexOfFrom_notin)

lemma indexOf_first:
  "i < length xs \<Longrightarrow> xs ! i = x \<Longrightarrow> x \<notin> set (take i xs) \<Longrightarrow> indexOf xs x = int i"
  by (simp add: indexOf_def indexOfFrom_first)

lemma indexOf_in:
  "x \<in> set xs \<Longrightarrow> \<exists>i<length xs. indexOf xs x = int i \<and> xs ! i = x \<and> x \<notin> set (take i xs)"
  using indexOfFrom_in [of x xs 0] by (simp add: indexOf_def)

lemma map_splice: "map f (splice xs start dc ys) = splice (map f xs) start dc (map f ys)"
  by (simp add: splice_def Let_def take_map drop_map)

lemma splice_insert:
  "k \<le> length xs \<Longrightarrow> splice xs (int k) 0 ys = take k xs @ ys @ drop k xs"
  by (simp add: splice_def Let_def min_def)

lemma splice_insert_last:
  "splice xs (-1) 0 [y] = butlast xs @ y # drop (length xs - 1) xs"
  by (cases "xs = []") (auto simp: splice_def Let_def max_def butlast_conv_take nat_diff_distrib')

lemma splice_delete_last: "splice xs (-1) 1 [] = butlast xs"
  by (cases "xs = []") (auto simp: splice_def Let_def max_def min_def butlast_conv_take nat_diff_distrib')

section \<open>A cell's measured height\<close>

lemma dynamicHeight_cell_op:
  "\<not> is_SetDynamicHeight x \<Longrightarrow>
     dynamicHeight (vcells (cell_op marked createModel this x H) v) = dynamicHeight (vcells H v)"
  by (cases x)
     (auto simp: setText_def save_def getHTML_def getTextModel_def getMDRenderer_def
        update_view_def update_icell_def Let_def split: option.splits)

lemma dynamicHeight_cell_ops:
  "\<not> list_ex is_SetDynamicHeight xs \<Longrightarrow>
     dynamicHeight (vcells (cell_ops marked createModel this xs H) v) = dynamicHeight (vcells H v)"
  by (induction xs arbitrary: H) (simp_all add: dynamicHeight_cell_op)

lemma hasDynamicHeight_cell_ops:
  "hasDynamicHeight (cell_ops marked createModel this xs H) this =
     (hasDynamicHeight H this \<and> \<not> list_ex is_SetDynamicHeight xs)"
proof (induction xs arbitrary: H)
  case Nil
  show ?case by simp
next
  case (Cons x xs)
  show ?case
  proof (cases "is_SetDynamicHeight x")
    case True
    then obtain h where "x = SetDynamicHeight h" by (cases x) auto
    then show ?thesis
      using Cons.IH [of "cell_op marked createModel this x H"]
      by (simp add: hasDynamicHeight_def setDynamicHeight_def update_view_def)
  next
    case False
    then show ?thesis
      using Cons.IH [of "cell_op marked createModel this x H"]
        dynamicHeight_cell_op [OF False, of marked createModel this H this]
      by (simp add: hasDynamicHeight_def)
  qed
qed

text \<open>
  Claim C2. Before any measurement is latched, \<^verbatim>\<open>getHeight(h)\<close> returns the heuristic:
  the fixed placeholder \<open>100\<close> for a markdown cell and \<open>max(lineCount + 1, 5) * h + 16\<close>
  for a code cell, so that a code cell of ten lines gives \<open>214\<close> at \<open>h = 18\<close>. After
  \<^verbatim>\<open>setDynamicHeight(300)\<close>, whatever else is done to the cell short of another
  measurement, \<^verbatim>\<open>getHeight\<close> returns \<open>300\<close> for every argument.
\<close>

theorem getHeight_latch:
  "(dynamicHeight (vcells H this) = None \<longrightarrow>
      getHeight H this h =
        (if cellType H this = markdown then 100
         else max (int (lineCount H this) + 1) 5 * h + 16))
   \<and> (dynamicHeight (vcells H this) = None \<and> cellType H this = code \<and> lineCount H this = 10 \<longrightarrow>
        getHeight H this 18 = 214)
   \<and> (\<not> list_ex is_SetDynamicHeight ops \<longrightarrow>
        getHeight (cell_ops marked createModel this ops (setDynamicHeight this 300 H)) this h' = 300)"
proof -
  have latched: "dynamicHeight (vcells (setDynamicHeight this 300 H) this) = Some 300"
    by (simp add: setDynamicHeight_def update_view_def)
  have "getHeight (cell_ops marked createModel this ops (setDynamicHeight this 300 H)) this h' = 300"
    if "\<not> list_ex is_SetDynamicHeight ops"
    using dynamicHeight_cell_ops [OF that, of marked createModel this "setDynamicHeight this 300 H" this]
      latched
    by (simp add: getHeight_def)
  then show ?thesis
    by (simp add: getHeight_def heuristicHeight_def)
qed

theorem getHeight_latch_witness:
  "dynamicHeight (vcells exampleHeap 0) = None \<and> cellType exampleHeap 0 = code
   \<and> lineCount exampleHeap 0 = 10 \<and> getHeight exampleHeap 0 18 = 214
   \<and> \<not> list_ex is_SetDynamicHeight exampleOps
   \<and> getHeight (cell_ops exampleMarked exampleCreateModel 0 exampleOps
        (setDynamicHeight 0 300 exampleHeap)) 0 7 = 300"
  using getHeight_latch [of exampleHeap 0 18 exampleOps exampleMarked exampleCreateModel 7]
  by (simp add: example_defs cellType_def lineCount_def)

text \<open>
  Claim C3. A new cell has a pending measurement. After any sequence of operations on a
  cell, \<^verbatim>\<open>hasDynamicHeight()\<close> is true exactly when it was true before and none of the
  operations was a \<^verbatim>\<open>setDynamicHeight\<close>: the first measurement turns it false, and nothing,
  \<^verbatim>\<open>setText\<close> with new content included, turns it true again.
\<close>

theorem hasDynamicHeight_permanent:
  "hasDynamicHeight (snd (new_ViewCell r editing H)) (fst (new_ViewCell r editing H))
   \<and> hasDynamicHeight (cell_ops marked createModel this ops H) this =
       (hasDynamicHeight H this \<and> \<not> list_ex is_SetDynamicHeight ops)"
  by (simp add: hasDynamicHeight_cell_ops) (simp add: hasDynamicHeight_def new_ViewCell_def)

theorem hasDynamicHeight_permanent_witness:
  "hasDynamicHeight exampleHeap 0
   \<and> hasDynamicHeight (cell_ops exampleMarked exampleCreateModel 0 exampleOps exampleHeap) 0
   \<and> \<not> hasDynamicHeight (cell_ops exampleMarked exampleCreateModel 0 measuringOps exampleHeap) 0"
proof -
  have pending: "hasDynamicHeight exampleHeap 0"
    by (simp add: exampleHeap_def hasDynamicHeight_def)
  have none: "\<not> list_ex is_SetDynamicHeight exampleOps"
    by (simp add: exampleOps_def)
  have some: "list_ex is_SetDynamicHeight measuringOps"
    by (simp add: measuringOps_def)
  show ?thesis
    using pending none some
      hasDynamicHeight_permanent [of 0 False exampleHeap exampleMarked exampleCreateModel 0 exampleOps]
      hasDynamicHeight_permanent [of 0 False exampleHeap exampleMarked exampleCreateModel 0 measuringOps]
    by simp
qed

text \<open>
  Claim C10. When a height of exactly \<open>0\<close> is latched, \<^verbatim>\<open>hasDynamicHeight()\<close> returns
  false, and \<^verbatim>\<open>getHeight(h)\<close> still returns the heuristic estimate, not the latched
  \<open>0\<close>: its test of the field takes a stored \<open>0\<close> as absent.
\<close>

theorem zero_height_latch:
  "hasDynamicHeight (setDynamicHeight this 0 H) this = False
   \<and> getHeight (setDynamicHeight this 0 H) this h =
       (if cellType H this = markdown then 100
        else max (int (lineCount H this) + 1) 5 * h + 16)"
  by (simp add: hasDynamicHeight_def getHeight_def heuristicHeight_def setDynamicHeight_def
      update_view_def cellType_def lineCount_def)

theorem zero_height_latch_witness:
  "\<not> hasDynamicHeight (setDynamicHeight 0 0 exampleHeap) 0
   \<and> getHeight (setDynamicHeight 0 0 exampleHeap) 0 18 = 214"
  using zero_height_latch [of 0 exampleHeap 18]
  by (simp add: example_defs cellType_def lineCount_def)

section \<open>A cell's text\<close>

text \<open>
  Claim C7. For a markdown cell, \<^verbatim>\<open>getHTML()\<close> after \<^verbatim>\<open>setText(L)\<close> returns the rendering
  of the cell's current text, which is the lines of \<open>L\<close>, each with its terminator;
  \<^verbatim>\<open>setText\<close> clears the cached HTML and leaves the cached measured height as it is.
\<close>

theorem getHTML_after_setText:
  "cellType H this = markdown \<Longrightarrow>
     fst (getHTML marked this (setText this L H)) = Some (marked (getText (setText this L H) this))
   \<and> getText (setText this L H) this = concat (map (\<lambda>str. str @ newline) L)
   \<and> html (vcells (setText this L H) this) = None
   \<and> dynamicHeight (vcells (setText this L H) this) = dynamicHeight (vcells H this)"
  by (simp add: getHTML_def setText_def getText_def getMDRenderer_def cellType_def
      update_view_def update_icell_def Let_def)

theorem getHTML_after_setText_witness:
  "cellType exampleHeap 1 = markdown
   \<and> html (vcells exampleHeap 1) = Some ''<p>old</p>''
   \<and> fst (getHTML exampleMarked 1 (setText 1 [''new''] exampleHeap)) =
       Some (''<p>new'' @ newline @ ''</p>'')
   \<and> html (vcells (setText 1 [''new''] exampleHeap) 1) = None
   \<and> dynamicHeight (vcells (setText 1 [''new''] exampleHeap) 1) = Some 120"
  using getHTML_after_setText [of exampleHeap 1 exampleMarked "[''new'']"]
  by (simp add: example_defs cellType_def)

text \<open>
  Claim C8. For a cell in editing mode that has an edit buffer, \<^verbatim>\<open>save()\<close> followed by
  \<^verbatim>\<open>getText()\<close> gives the buffer's lines, each followed by the line terminator;
  \<^verbatim>\<open>save()\<close> writes these lines to the record's source and leaves the buffer in place.
\<close>

theorem save_getText_roundtrip:
  "isEditing (vcells H this) \<Longrightarrow> textModel (vcells H this) = Some tm \<Longrightarrow>
     getText (save this H) this = concat (map (\<lambda>str. str @ newline) (linesContent tm))
   \<and> source (icells (save this H) (cell (vcells (save this H) this))) =
       map (\<lambda>str. str @ newline) (linesContent tm)
   \<and> textModel (vcells (save this H) this) = Some tm"
  by (simp add: save_def getText_def update_icell_def)

theorem save_getText_roundtrip_witness:
  "isEditing (vcells exampleHeap 1)
   \<and> textModel (vcells exampleHeap 1) = Some \<lparr>linesContent = [''a'', ''b'']\<rparr>
   \<and> getText (save 1 exampleHeap) 1 = ''a'' @ newline @ ''b'' @ newline
   \<and> source (icells (save 1 exampleHeap) (cell (vcells (save 1 exampleHeap) 1))) =
       [''a'' @ newline, ''b'' @ newline]
   \<and> textModel (vcells (save 1 exampleHeap) 1) = Some \<lparr>linesContent = [''a'', ''b'']\<rparr>"
  using save_getText_roundtrip [of exampleHeap 1 "\<lparr>linesContent = [''a'', ''b'']\<rparr>"]
  by (simp add: example_defs)

section \<open>Structural edits keep the three orderings together\<close>

lemma list_call_simps:
  "heap (list_call c ed) = heap ed"
  "viewCells (list_call c ed) = viewCells ed"
  "model (list_call c ed) = model ed"
  "timeouts (list_call c ed) = timeouts ed"
  "vlist (list_call c ed) = map_option (run_ListCall c) (vlist ed)"
  by (simp_all add: list_call_def split: option.splits)

lemma insert_result:
  assumes "model ed = Some m" and "c < nextViewCell (heap ed)"
    and "index = indexOf (cells m) (cell (vcells (heap ed) c))"
    and "insertIndex = (if direction = above then index else index + 1)"
    and "H = (heap ed)\<lparr>icells := (icells (heap ed))(nextICell (heap ed) := \<lparr>cell_type = type, source = [], outputs = []\<rparr>),
               nextICell := Suc (nextICell (heap ed)),
               vcells := (vcells (heap ed))(nextViewCell (heap ed) :=
                  \<lparr>cell = nextICell (heap ed), isEditing = (type = markdown), textModel = None,
                   mdRenderer = False, html = None, dynamicHeight = None\<rparr>),
               nextViewCell := Suc (nextViewCell (heap ed))\<rparr>"
  shows "insertEmptyNotebookCell c type direction ed =
     Inr (list_call (ListSplice insertIndex 0 [nextViewCell (heap ed)])
            (ed\<lparr>heap := H,
                viewCells := splice (viewCells ed) insertIndex 0 [nextViewCell (heap ed)],
                model := Some (m\<lparr>cells := splice (cells m) insertIndex 0 [nextICell (heap ed)]\<rparr>)\<rparr>))"
  using assms
  by (simp add: insertEmptyNotebookCell_def new_ICell_def new_ViewCell_def model_insertCell_def Let_def)

lemma delete_result:
  assumes "model ed = Some m"
    and "index = indexOf (cells m) (cell (vcells (heap ed) c))"
  shows "deleteNotebookCell c ed =
     Inr (list_call (ListSplice index 1 [])
            (ed\<lparr>viewCells := splice (viewCells ed) index 1 [],
                model := Some (model_deleteCell (cell (vcells (heap ed) c)) m)\<rparr>))"
  using assms by (simp add: deleteNotebookCell_def Let_def)

lemma insert_in_sync:
  assumes sync: "in_sync ed" and alloc: "allocated ed" and anc: "c < nextViewCell (heap ed)"
  shows "\<exists>ed'. insertEmptyNotebookCell c type direction ed = Inr ed' \<and> in_sync ed' \<and> allocated ed'"
proof -
  from sync obtain m where m: "model ed = Some m"
    and vs: "map (\<lambda>v. cell (vcells (heap ed) v)) (viewCells ed) = cells m"
    and ls: "case vlist ed of None \<Rightarrow> True | Some l \<Rightarrow> map fst l = viewCells ed"
    by (auto simp: in_sync_def split: option.splits)
  define index where "index = indexOf (cells m) (cell (vcells (heap ed) c))"
  define insertIndex where "insertIndex = (if direction = above then index else index + 1)"
  define H where "H = (heap ed)\<lparr>icells := (icells (heap ed))(nextICell (heap ed) := \<lparr>cell_type = type, source = [], outputs = []\<rparr>),
               nextICell := Suc (nextICell (heap ed)),
               vcells := (vcells (heap ed))(nextViewCell (heap ed) :=
                  \<lparr>cell = nextICell (heap ed), isEditing = (type = markdown), textModel = None,
                   mdRenderer = False, html = None, dynamicHeight = None\<rparr>),
               nextViewCell := Suc (nextViewCell (heap ed))\<rparr>"
  define ed' where "ed' = list_call (ListSplice insertIndex 0 [nextViewCell (heap ed)])
            (ed\<lparr>heap := H,
                viewCells := splice (viewCells ed) insertIndex 0 [nextViewCell (heap ed)],
                model := Some (m\<lparr>cells := splice (cells m) insertIndex 0 [nextICell (heap ed)]\<rparr>)\<rparr>)"
  have res: "insertEmptyNotebookCell c type direction ed = Inr ed'"
    unfolding ed'_def by (rule insert_result [OF m anc index_def insertIndex_def H_def])
  have old: "cell (vcells H v) = cell (vcells (heap ed) v)" if "v \<in> set (viewCells ed)" for v
    using that alloc by (auto simp: H_def allocated_def list_all_iff)
  have new: "cell (vcells H (nextViewCell (heap ed))) = nextICell (heap ed)"
    by (simp add: H_def)
  have "map (\<lambda>v. cell (vcells H v)) (viewCells ed) = cells m"
    using vs old by (metis (mono_tags, lifting) map_eq_conv)
  then have s1: "map (\<lambda>v. cell (vcells (heap ed') v)) (viewCells ed') = splice (cells m) insertIndex 0 [nextICell (heap ed)]"
    by (simp add: ed'_def list_call_simps map_splice new)
  have s2: "map fst l = viewCells ed'" if "vlist ed' = Some l" for l
    using ls that by (auto simp: ed'_def list_call_simps list_splice_def map_splice split: option.splits)
  have m': "model ed' = Some (m\<lparr>cells := splice (cells m) insertIndex 0 [nextICell (heap ed)]\<rparr>)"
    by (simp add: ed'_def list_call_simps)
  have sync': "in_sync ed'"
    using s1 s2 m' by (auto simp: in_sync_def split: option.splits)
  have "set (splice (viewCells ed) insertIndex 0 [nextViewCell (heap ed)]) \<subseteq> insert (nextViewCell (heap ed)) (set (viewCells ed))"
    by (auto simp: splice_def Let_def dest: in_set_takeD in_set_dropD)
  then have "allocated ed'"
    using alloc by (auto simp: allocated_def list_all_iff ed'_def list_call_simps H_def less_Suc_eq)
  with res sync' show ?thesis by blast
qed

lemma delete_in_sync:
  assumes sync: "in_sync ed" and alloc: "allocated ed" and anc: "in_model c ed"
  shows "\<exists>ed'. deleteNotebookCell c ed = Inr ed' \<and> in_sync ed' \<and> allocated ed' "
proof -
  from sync obtain m where m: "model ed = Some m"
    and vs: "map (\<lambda>v. cell (vcells (heap ed) v)) (viewCells ed) = cells m"
    and ls: "case vlist ed of None \<Rightarrow> True | Some l \<Rightarrow> map fst l = viewCells ed"
    by (auto simp: in_sync_def split: option.splits)
  define index where "index = indexOf (cells m) (cell (vcells (heap ed) c))"
  define ed' where "ed' = list_call (ListSplice index 1 [])
            (ed\<lparr>viewCells := splice (viewCells ed) index 1 [],
                model := Some (model_deleteCell (cell (vcells (heap ed) c)) m)\<rparr>)"
  have res: "deleteNotebookCell c ed = Inr ed'"
    unfolding ed'_def by (rule delete_result [OF m index_def])
  from anc m have "cell (vcells (heap ed) c) \<in> set (cells m)"
    by (simp add: in_model_def)
  from indexOf_in [OF this] have nonneg: "0 \<le> index"
    by (auto simp: index_def)
  then have md: "model_deleteCell (cell (vcells (heap ed) c)) m = m\<lparr>cells := splice (cells m) index 1 []\<rparr>"
    by (simp add: model_deleteCell_def index_def Let_def)
  have s1: "map (\<lambda>v. cell (vcells (heap ed') v)) (viewCells ed') = splice (cells m) index 1 []"
    using vs by (simp add: ed'_def list_call_simps map_splice)
  have s2: "map fst l = viewCells ed'" if "vlist ed' = Some l" for l
    using ls that by (auto simp: ed'_def list_call_simps list_splice_def map_splice split: option.splits)
  have m': "model ed' = Some (m\<lparr>cells := splice (cells m) index 1 []\<rparr>)"
    using md by (simp add: ed'_def list_call_simps)
  have sync': "in_sync ed'"
    using s1 s2 m' by (auto simp: in_sync_def split: option.splits)
  have "set (splice (viewCells ed) index 1 []) \<subseteq> set (viewCells ed)"
    by (auto simp: splice_def Let_def dest: in_set_takeD in_set_dropD)
  then have "allocated ed'"
    using alloc by (auto simp: allocated_def list_all_iff ed'_def list_call_simps)
  with res sync' show ?thesis by blast
qed

lemma edit_in_sync:
  assumes "in_sync ed" and "allocated ed" and "in_model (anchor e) ed"
  shows "\<exists>ed'. edit e ed = Inr ed' \<and> in_sync ed' \<and> allocated ed'"
proof (cases e)
  case (InsertCell c type direction)
  with assms(3) have "c < nextViewCell (heap ed)"
    by (auto simp: in_model_def split: option.splits)
  with InsertCell insert_in_sync [OF assms(1,2) this] show ?thesis by simp
next
  case (DeleteCell c)
  with assms(3) delete_in_sync [OF assms(1,2), of c] show ?thesis by simp
qed

lemma edits_in_sync:
  "in_sync ed \<Longrightarrow> allocated ed \<Longrightarrow> anchors_in_model es ed \<Longrightarrow> n \<le> length es \<Longrightarrow>
     \<exists>ed'. edits (take n es) ed = Inr ed' \<and> in_sync ed' \<and> allocated ed'"
proof (induction es arbitrary: ed n)
  case Nil
  then show ?case by simp
next
  case (Cons e es)
  show ?case
  proof (cases n)
    case 0
    with Cons.prems show ?thesis by simp
  next
    case (Suc k)
    from Cons.prems have "in_model (anchor e) ed" by simp
    from edit_in_sync [OF Cons.prems(1,2) this] obtain ed1 where
      ed1: "edit e ed = Inr ed1" "in_sync ed1" "allocated ed1" by blast
    with Cons.prems have "anchors_in_model es ed1" by simp
    moreover from Cons.prems Suc have "k \<le> length es" by simp
    ultimately obtain ed' where "edits (take k es) ed1 = Inr ed'" "in_sync ed'" "allocated ed'"
      using Cons.IH [OF ed1(2,3)] by blast
    with ed1 Suc show ?thesis by simp
  qed
qed

text \<open>
  Claim C4. From a state in which the \<^verbatim>\<open>ViewCell\<close> array, the backing model's cell array
  and the list's rendered order agree, every sequence of insertions and deletions whose
  anchors are in the backing model when their turn comes runs without an exception, and
  after each operation of the sequence the three orderings agree again.
\<close>

theorem ordering_law:
  assumes "in_sync ed" and "allocated ed" and "anchors_in_model es ed"
  shows "\<forall>n\<le>length es. \<exists>ed'. edits (take n es) ed = Inr ed' \<and> in_sync ed'"
  using edits_in_sync [OF assms] by blast

theorem ordering_law_witness:
  "in_sync exampleEditor \<and> allocated exampleEditor \<and> anchors_in_model exampleEdits exampleEditor
   \<and> (\<exists>ed'. edits exampleEdits exampleEditor = Inr ed' \<and> in_sync ed')
   \<and> map_sum id viewCells (edits exampleEdits exampleEditor) = Inr [1, 2, 4]"
proof -
  have h: "in_sync exampleEditor" "allocated exampleEditor"
    "anchors_in_model exampleEdits exampleEditor"
    by (simp_all add: example_defs editor_defs)
  from ordering_law [OF h]
  have "\<exists>ed'. edits (take (length exampleEdits) exampleEdits) exampleEditor = Inr ed' \<and> in_sync ed'"
    by blast
  moreover have "map_sum id viewCells (edits exampleEdits exampleEditor) = Inr [1, 2, 4]"
    by (simp add: example_defs editor_defs)
  ultimately show ?thesis
    using h by simp
qed

text \<open>
  Claim C5. When the three orderings agree and the anchor's record is found in the backing
  model at index \<open>i\<close>, the index of its first occurrence at the time of the call,
  \<^verbatim>\<open>insertEmptyNotebookCell\<close> puts the new cell at index \<open>i\<close> for \<^verbatim>\<open>above\<close> and at
  \<open>i + 1\<close> for \<^verbatim>\<open>below\<close>, in the backing model, in the \<^verbatim>\<open>ViewCell\<close> array and in the
  list; the new \<^verbatim>\<open>ViewCell\<close> wraps a new empty record of the requested type.
\<close>

theorem insert_direction:
  assumes sync: "in_sync ed" and m: "model ed = Some m" and anc: "c < nextViewCell (heap ed)"
    and i: "i < length (cells m)" "cells m ! i = cell (vcells (heap ed) c)"
      "cell (vcells (heap ed) c) \<notin> set (take i (cells m))"
  shows "\<exists>ed' m'. insertEmptyNotebookCell c type direction ed = Inr ed' \<and> model ed' = Some m' \<and>
     (let k = (if direction = above then i else i + 1)
      in cells m' = take k (cells m) @ [nextICell (heap ed)] @ drop k (cells m)
       \<and> viewCells ed' = take k (viewCells ed) @ [nextViewCell (heap ed)] @ drop k (viewCells ed)
       \<and> vlist ed' = map_option (\<lambda>l. take k l @ [(nextViewCell (heap ed), None)] @ drop k l) (vlist ed)
       \<and> cells m' ! k = nextICell (heap ed)
       \<and> viewCells ed' ! k = nextViewCell (heap ed)
       \<and> cell (vcells (heap ed') (nextViewCell (heap ed))) = nextICell (heap ed)
       \<and> icells (heap ed') (nextICell (heap ed)) = \<lparr>cell_type = type, source = [], outputs = []\<rparr>)"
proof -
  define k where "k = (if direction = above then i else i + 1)"
  define H where "H = (heap ed)\<lparr>icells := (icells (heap ed))(nextICell (heap ed) := \<lparr>cell_type = type, source = [], outputs = []\<rparr>),
               nextICell := Suc (nextICell (heap ed)),
               vcells := (vcells (heap ed))(nextViewCell (heap ed) :=
                  \<lparr>cell = nextICell (heap ed), isEditing = (type = markdown), textModel = None,
                   mdRenderer = False, html = None, dynamicHeight = None\<rparr>),
               nextViewCell := Suc (nextViewCell (heap ed))\<rparr>"
  define ed' where "ed' = list_call (ListSplice (int k) 0 [nextViewCell (heap ed)])
            (ed\<lparr>heap := H,
                viewCells := splice (viewCells ed) (int k) 0 [nextViewCell (heap ed)],
                model := Some (m\<lparr>cells := splice (cells m) (int k) 0 [nextICell (heap ed)]\<rparr>)\<rparr>)"
  have idx: "indexOf (cells m) (cell (vcells (heap ed) c)) = int i"
    by (rule indexOf_first [OF i])
  have ii: "int k = (if direction = above then indexOf (cells m) (cell (vcells (heap ed) c))
                     else indexOf (cells m) (cell (vcells (heap ed) c)) + 1)"
    by (simp add: k_def idx)
  have res: "insertEmptyNotebookCell c type direction ed = Inr ed'"
    unfolding ed'_def by (rule insert_result [OF m anc refl ii H_def])
  from sync m have len: "length (viewCells ed) = length (cells m)"
    by (auto simp: in_sync_def dest: arg_cong [where f = length])
  from sync m have lenl: "length l = length (cells m)" if "vlist ed = Some l" for l
    using that len by (auto simp: in_sync_def dest: arg_cong [where f = length])
  have k: "k \<le> length (cells m)"
    using i(1) by (simp add: k_def)
  have c1: "cells (m\<lparr>cells := splice (cells m) (int k) 0 [nextICell (heap ed)]\<rparr>) =
              take k (cells m) @ [nextICell (heap ed)] @ drop k (cells m)"
    using k by (simp add: splice_insert)
  have c2: "viewCells ed' = take k (viewCells ed) @ [nextViewCell (heap ed)] @ drop k (viewCells ed)"
    using k len by (simp add: ed'_def list_call_simps splice_insert)
  have c3: "vlist ed' = map_option (\<lambda>l. take k l @ [(nextViewCell (heap ed), None)] @ drop k l) (vlist ed)"
    using k lenl by (cases "vlist ed") (simp_all add: ed'_def list_call_simps list_splice_def splice_insert)
  have c4: "(take k (cells m) @ [nextICell (heap ed)] @ drop k (cells m)) ! k = nextICell (heap ed)"
    using k by (simp add: nth_append)
  have c5: "(take k (viewCells ed) @ [nextViewCell (heap ed)] @ drop k (viewCells ed)) ! k = nextViewCell (heap ed)"
    using k len by (simp add: nth_append)
  have c6: "cell (vcells (heap ed') (nextViewCell (heap ed))) = nextICell (heap ed)"
    "icells (heap ed') (nextICell (heap ed)) = \<lparr>cell_type = type, source = [], outputs = []\<rparr>"
    by (simp_all add: ed'_def list_call_simps H_def)
  have m': "model ed' = Some (m\<lparr>cells := splice (cells m) (int k) 0 [nextICell (heap ed)]\<rparr>)"
    by (simp add: ed'_def list_call_simps)
  show ?thesis
    using res m' c1 c2 c3 c4 c5 c6 unfolding Let_def k_def [symmetric]
    by (intro exI [of _ ed'] exI [of _ "m\<lparr>cells := splice (cells m) (int k) 0 [nextICell (heap ed)]\<rparr>"]) simp
qed

theorem insert_direction_witness:
  "deleteNotebookCell 1 exampleEditor = Inr deletedEditor
   \<and> in_sync deletedEditor \<and> model deletedEditor = Some \<lparr>cells = [0, 2]\<rparr>
   \<and> 2 < nextViewCell (heap deletedEditor)
   \<and> [0, 2] ! 1 = cell (vcells (heap deletedEditor) 2)
   \<and> cell (vcells (heap deletedEditor) 2) \<notin> set (take 1 [0, 2])
   \<and> map_sum id viewCells (insertEmptyNotebookCell 2 code above deletedEditor) = Inr [0, 3, 2]
   \<and> map_sum id viewCells (insertEmptyNotebookCell 2 code below deletedEditor) = Inr [0, 2, 3]
   \<and> map_sum id model (insertEmptyNotebookCell 2 code above deletedEditor) = Inr (Some \<lparr>cells = [0, 3, 2]\<rparr>)
   \<and> map_sum id model (insertEmptyNotebookCell 2 code below deletedEditor) = Inr (Some \<lparr>cells = [0, 2, 3]\<rparr>)"
proof -
  have h: "in_sync deletedEditor" "model deletedEditor = Some \<lparr>cells = [0, 2]\<rparr>"
    "2 < nextViewCell (heap deletedEditor)" "1 < length (cells \<lparr>cells = [0, 2]\<rparr>)"
    "cells \<lparr>cells = [0, 2]\<rparr> ! 1 = cell (vcells (heap deletedEditor) 2)"
    "cell (vcells (heap deletedEditor) 2) \<notin> set (take 1 (cells \<lparr>cells = [0, 2]\<rparr>))"
    by (simp_all add: example_defs editor_defs)
  have d: "deleteNotebookCell 1 exampleEditor = Inr deletedEditor"
    by (simp add: example_defs editor_defs)
  have n: "nextICell (heap deletedEditor) = 3" "nextViewCell (heap deletedEditor) = 3"
    "viewCells deletedEditor = [0, 2]"
    by (simp_all add: example_defs)
  show ?thesis
    using d h n insert_direction [OF h, of code above] insert_direction [OF h, of code below]
    by (auto simp: Let_def)
qed

lemma viewCells_list_splice_with:
  "viewCells (snd (list_splice_with listSplice start deleteCount elements ed)) = viewCells ed"
  by (simp add: list_splice_with_def split: option.splits prod.splits)

lemma insert_with_viewCells:
  assumes "model ed = Some m" and "c < nextViewCell (heap ed)"
    and "index = indexOf (cells m) (cell (vcells (heap ed) c))"
    and "insertIndex = (if direction = above then index else index + 1)"
  shows "viewCells (snd (insertEmptyNotebookCell_with insertCell listSplice c type direction ed)) =
     splice (viewCells ed) insertIndex 0 [nextViewCell (heap ed)]"
  using assms
  by (simp add: insertEmptyNotebookCell_with_def new_ICell_def new_ViewCell_def Let_def
      viewCells_list_splice_with split: prod.splits completion.splits)

lemma delete_with_viewCells:
  assumes "model ed = Some m"
    and "index = indexOf (cells m) (cell (vcells (heap ed) c))"
  shows "viewCells (snd (deleteNotebookCell_with deleteCell listSplice c ed)) =
     splice (viewCells ed) index 1 []"
  using assms
  by (simp add: deleteNotebookCell_with_def Let_def viewCells_list_splice_with
      split: prod.splits completion.splits)

text \<open>
  With the methods as the spec has them, the operations with parameters are the
  operations above.
\<close>

lemma insert_with_spec:
  "insertEmptyNotebookCell_with (\<lambda>r index m. (Returns, model_insertCell r index m))
       (\<lambda>start deleteCount elements l. (Returns, list_splice start deleteCount elements l))
       c type direction ed =
     (case insertEmptyNotebookCell c type direction ed of
        Inl err \<Rightarrow> (Throws, ed)
      | Inr ed' \<Rightarrow> (Returns, ed'))"
  by (simp add: insertEmptyNotebookCell_with_def insertEmptyNotebookCell_def list_splice_with_def
      list_call_def new_ICell_def new_ViewCell_def Let_def split: option.splits)

lemma delete_with_spec:
  "deleteNotebookCell_with (\<lambda>r m. (Returns, model_deleteCell r m))
       (\<lambda>start deleteCount elements l. (Returns, list_splice start deleteCount elements l)) c ed =
     (case deleteNotebookCell c ed of
        Inl err \<Rightarrow> (Throws, ed)
      | Inr ed' \<Rightarrow> (Returns, ed'))"
  by (simp add: deleteNotebookCell_with_def deleteNotebookCell_def list_splice_with_def
      list_call_def Let_def split: option.splits)

text \<open>
  Claim C6, as the code has it. When the anchor's record is not in the backing model,
  neither operation checks for it: \<^verbatim>\<open>indexOf\<close> gives \<open>-1\<close>, and the \<^verbatim>\<open>ViewCell\<close>
  array is spliced with the index that follows from it before the model and the list are
  called. So whatever the methods of the model and of the list then do, return or throw,
  the \<^verbatim>\<open>ViewCell\<close> array has changed: \<^verbatim>\<open>insertEmptyNotebookCell\<close> with \<^verbatim>\<open>below\<close> has put
  the new \<^verbatim>\<open>ViewCell\<close> at index \<open>0\<close>, with \<^verbatim>\<open>above\<close> it has put it before the last
  element, and \<^verbatim>\<open>deleteNotebookCell\<close> has removed the last element. With \<^verbatim>\<open>below\<close> the
  index handed on is \<open>0\<close>, a position that every array has: the operation returns and
  the new cell is at index \<open>0\<close> of the backing model and of the list as well.
\<close>

theorem anchor_not_found:
  assumes m: "model ed = Some m" and anc: "c < nextViewCell (heap ed)"
    and nf: "cell (vcells (heap ed) c) \<notin> set (cells m)"
  shows "(\<exists>ed'. insertEmptyNotebookCell c type below ed = Inr ed'
            \<and> viewCells ed' = nextViewCell (heap ed) # viewCells ed
            \<and> model ed' = Some (m\<lparr>cells := nextICell (heap ed) # cells m\<rparr>)
            \<and> vlist ed' = map_option ((#) (nextViewCell (heap ed), None)) (vlist ed))
       \<and> viewCells (snd (insertEmptyNotebookCell_with insertCell listSplice c type below ed)) =
           nextViewCell (heap ed) # viewCells ed
       \<and> viewCells (snd (insertEmptyNotebookCell_with insertCell listSplice c type above ed)) =
           butlast (viewCells ed) @ nextViewCell (heap ed) # drop (length (viewCells ed) - 1) (viewCells ed)
       \<and> viewCells (snd (deleteNotebookCell_with deleteCell listSplice c ed)) =
           butlast (viewCells ed)"
proof -
  have idx: "indexOf (cells m) (cell (vcells (heap ed) c)) = - 1"
    by (rule indexOf_notin [OF nf])
  have below: "(0::int) = (if below = above then indexOf (cells m) (cell (vcells (heap ed) c))
       else indexOf (cells m) (cell (vcells (heap ed) c)) + 1)"
    by (simp add: idx)
  have above: "(- 1::int) = (if above = above then indexOf (cells m) (cell (vcells (heap ed) c))
       else indexOf (cells m) (cell (vcells (heap ed) c)) + 1)"
    by (simp add: idx)
  have s0: "splice xs 0 0 ys = ys @ xs" for xs ys :: "'a list"
    using splice_insert [of 0 xs ys] by simp
  have 1: "\<exists>ed'. insertEmptyNotebookCell c type below ed = Inr ed'
            \<and> viewCells ed' = nextViewCell (heap ed) # viewCells ed
            \<and> model ed' = Some (m\<lparr>cells := nextICell (heap ed) # cells m\<rparr>)
            \<and> vlist ed' = map_option ((#) (nextViewCell (heap ed), None)) (vlist ed)"
    unfolding insert_result [OF m anc refl below refl]
    by (cases "vlist ed") (simp_all add: list_call_simps list_splice_def s0)
  have 2: "viewCells (snd (insertEmptyNotebookCell_with insertCell listSplice c type below ed)) =
           nextViewCell (heap ed) # viewCells ed"
    unfolding insert_with_viewCells [OF m anc refl below]
    by (simp add: s0)
  have 3: "viewCells (snd (insertEmptyNotebookCell_with insertCell listSplice c type above ed)) =
           butlast (viewCells ed) @ nextViewCell (heap ed) # drop (length (viewCells ed) - 1) (viewCells ed)"
    unfolding insert_with_viewCells [OF m anc refl above]
    by (simp add: splice_insert_last)
  have 4: "viewCells (snd (deleteNotebookCell_with deleteCell listSplice c ed)) =
           butlast (viewCells ed)"
    unfolding delete_with_viewCells [OF m refl]
    by (simp add: idx splice_delete_last)
  from 1 2 3 4 show ?thesis by blast
qed

theorem anchor_not_found_witness:
  "model deletedEditor = Some \<lparr>cells = [0, 2]\<rparr> \<and> 1 < nextViewCell (heap deletedEditor)
   \<and> cell (vcells (heap deletedEditor) 1) \<notin> set (cells \<lparr>cells = [0, 2]\<rparr>)
   \<and> map_sum id viewCells (insertEmptyNotebookCell 1 markdown below deletedEditor) = Inr [3, 0, 2]
   \<and> map_sum id model (insertEmptyNotebookCell 1 markdown below deletedEditor) =
       Inr (Some \<lparr>cells = [3, 0, 2]\<rparr>)
   \<and> viewCells (snd (insertEmptyNotebookCell_with strict_insertCell strict_listSplice
        1 markdown below deletedEditor)) = [3, 0, 2]
   \<and> fst (insertEmptyNotebookCell_with strict_insertCell strict_listSplice
        1 markdown above deletedEditor) = Throws
   \<and> viewCells (snd (insertEmptyNotebookCell_with strict_insertCell strict_listSplice
        1 markdown above deletedEditor)) = [0, 3, 2]
   \<and> fst (deleteNotebookCell_with strict_deleteCell strict_listSplice 1 deletedEditor) = Throws
   \<and> viewCells (snd (deleteNotebookCell_with strict_deleteCell strict_listSplice 1 deletedEditor)) = [0]"
proof -
  have h: "model deletedEditor = Some \<lparr>cells = [0, 2]\<rparr>" "1 < nextViewCell (heap deletedEditor)"
    "cell (vcells (heap deletedEditor) 1) \<notin> set (cells \<lparr>cells = [0, 2]\<rparr>)"
    by (simp_all add: example_defs)
  have n: "nextICell (heap deletedEditor) = 3" "nextViewCell (heap deletedEditor) = 3"
    "viewCells deletedEditor = [0, 2]"
    by (simp_all add: example_defs)
  have t: "fst (insertEmptyNotebookCell_with strict_insertCell strict_listSplice
        1 markdown above deletedEditor) = Throws"
    "fst (deleteNotebookCell_with strict_deleteCell strict_listSplice 1 deletedEditor) = Throws"
    by (simp_all add: example_defs insertEmptyNotebookCell_with_def deleteNotebookCell_with_def
        new_ICell_def new_ViewCell_def indexOf_def Let_def)
  show ?thesis
    using h n t
      anchor_not_found [OF h, of markdown strict_insertCell strict_listSplice strict_deleteCell]
    by auto
qed

text \<open>
  Claim C6 as stated fails. After cell \<open>1\<close> has been deleted, an insertion below the
  same anchor does not fail: it returns, with the new cell at index \<open>0\<close> of the
  \<^verbatim>\<open>ViewCell\<close> array, of the backing model and of the list.
\<close>

theorem missing_anchor_mutates:
  "deleteNotebookCell 1 exampleEditor = Inr deletedEditor
   \<and> viewCells deletedEditor = [0, 2]
   \<and> map_sum id viewCells (insertEmptyNotebookCell 1 code below deletedEditor) = Inr [3, 0, 2]
   \<and> map_sum id model (insertEmptyNotebookCell 1 code below deletedEditor) =
       Inr (Some \<lparr>cells = [3, 0, 2]\<rparr>)
   \<and> map_sum id vlist (insertEmptyNotebookCell 1 code below deletedEditor) =
       Inr (Some [(3, None), (0, None), (2, None)])"
  by (simp add: example_defs editor_defs)

section \<open>The deferred height update\<close>

text \<open>
  Claim C1, as the code has it. When the cell's record is no longer in the backing model,
  the scheduled update does not throw, and it does call \<^verbatim>\<open>updateDynamicHeight\<close> on the
  list, if there is one, with the index \<open>-1\<close> that \<^verbatim>\<open>indexOf\<close> gives; that call being a
  no-op on the list, the list and everything else in the editor stay as they were.
\<close>

theorem layoutElement_deleted_cell:
  assumes "model ed = Some m" and "cell (vcells (heap ed) c) \<notin> set (cells m)"
  shows "layoutElement_timeout c height ed =
     Inr (case vlist ed of
            None \<Rightarrow> ed
          | Some l \<Rightarrow> ed\<lparr>listCalls := listCalls ed @ [ListUpdateDynamicHeight (- 1) c height]\<rparr>)"
  using assms
  by (simp add: layoutElement_timeout_def indexOf_notin list_call_def list_updateDynamicHeight_def
      split: option.splits)

theorem layoutElement_deleted_cell_witness:
  "deleteNotebookCell 1 (layoutElement 1 120 exampleEditor) = Inr pendingEditor
   \<and> model pendingEditor = Some \<lparr>cells = [0, 2]\<rparr>
   \<and> cell (vcells (heap pendingEditor) 1) \<notin> set (cells \<lparr>cells = [0, 2]\<rparr>)
   \<and> map_sum id vlist (layoutElement_timeout 1 120 pendingEditor) = Inr (vlist pendingEditor)
   \<and> map_sum id vlist (runTimeout (layoutElement 1 120 exampleEditor)) =
       Inr (Some [(0, None), (1, Some 120), (2, None)])"
proof -
  have h: "model pendingEditor = Some \<lparr>cells = [0, 2]\<rparr>"
    "cell (vcells (heap pendingEditor) 1) \<notin> set (cells \<lparr>cells = [0, 2]\<rparr>)"
    by (simp_all add: example_defs)
  have d: "deleteNotebookCell 1 (layoutElement 1 120 exampleEditor) = Inr pendingEditor"
    "map_sum id vlist (runTimeout (layoutElement 1 120 exampleEditor)) =
       Inr (Some [(0, None), (1, Some 120), (2, None)])"
    by (simp_all add: example_defs editor_defs)
  have l: "vlist pendingEditor = Some [(0, None), (2, None)]"
    by (simp add: example_defs)
  show ?thesis
    using h d l layoutElement_deleted_cell [OF h, of 120]
    by simp
qed

text \<open>
  Claim C1 as stated fails in one part. With the update scheduled, cell \<open>1\<close> deleted and
  the callback run, the calls made on the list are the deletion's \<^verbatim>\<open>splice\<close> followed by
  \<^verbatim>\<open>updateDynamicHeight(-1, cell, 120)\<close>: the call is made.
\<close>

theorem deferred_update_calls_list:
  "deleteNotebookCell 1 (layoutElement 1 120 exampleEditor) = Inr pendingEditor
   \<and> map_sum id listCalls (runTimeout pendingEditor) =
       Inr [ListSplice 1 1 [], ListUpdateDynamicHeight (- 1) 1 120]"
  by (simp add: example_defs editor_defs)

section \<open>Hiding the editor\<close>

lemma fold_isEditing:
  "fold (\<lambda>c H. update_view c (\<lambda>v. v\<lparr>isEditing := False\<rparr>) H) vs H =
     H\<lparr>vcells := (\<lambda>v. if v \<in> set vs then (vcells H v)\<lparr>isEditing := False\<rparr> else vcells H v)\<rparr>"
proof (induction vs arbitrary: H)
  case Nil
  show ?case by simp
next
  case (Cons a vs)
  have "fold (\<lambda>c H. update_view c (\<lambda>v. v\<lparr>isEditing := False\<rparr>) H) (a # vs) H =
        fold (\<lambda>c H. update_view c (\<lambda>v. v\<lparr>isEditing := False\<rparr>) H) vs
          (update_view a (\<lambda>v. v\<lparr>isEditing := False\<rparr>) H)"
    by simp
  also have "\<dots> = H\<lparr>vcells := (\<lambda>v. if v \<in> set (a # vs) then (vcells H v)\<lparr>isEditing := False\<rparr> else vcells H v)\<rparr>"
    unfolding Cons.IH by (auto simp: update_view_def fun_eq_iff)
  finally show ?case .
qed

text \<open>
  Claim C9, as the code has it. \<^verbatim>\<open>onHide()\<close> turns off the editing mode of every cell of
  the \<^verbatim>\<open>ViewCell\<close> array and does nothing else: no record's source, no edit buffer and
  no other cell changes.
\<close>

theorem onHide_only_editing:
  "onHide ed =
     ed\<lparr>heap := (heap ed)\<lparr>vcells :=
        (\<lambda>v. if v \<in> set (viewCells ed) then (vcells (heap ed) v)\<lparr>isEditing := False\<rparr>
             else vcells (heap ed) v)\<rparr>\<rparr>"
  by (simp add: onHide_def fold_isEditing)

theorem onHide_only_editing_witness:
  "isEditing (vcells (heap exampleEditor) 1)
   \<and> \<not> isEditing (vcells (heap (onHide exampleEditor)) 1)
   \<and> icells (heap (onHide exampleEditor)) = icells (heap exampleEditor)
   \<and> textModel (vcells (heap (onHide exampleEditor)) 1) = Some \<lparr>linesContent = [''a'', ''b'']\<rparr>
   \<and> viewCells (onHide exampleEditor) = [0, 1, 2]"
  using onHide_only_editing [of exampleEditor]
  by (simp add: example_defs)

text \<open>
  Claim C9 as stated fails. Cell \<open>1\<close> is in editing mode and its buffer holds two lines;
  \<^verbatim>\<open>save()\<close> would write them to the record, and after \<^verbatim>\<open>onHide()\<close> the record's source
  is still empty.
\<close>

theorem onHide_does_not_save:
  "1 \<in> set (viewCells exampleEditor)
   \<and> isEditing (vcells (heap exampleEditor) 1)
   \<and> textModel (vcells (heap exampleEditor) 1) = Some \<lparr>linesContent = [''a'', ''b'']\<rparr>
   \<and> source (icells (save 1 (heap exampleEditor)) 1) = [''a'' @ newline, ''b'' @ newline]
   \<and> source (icells (heap (onHide exampleEditor)) 1) = []"
  by (simp add: example_defs onHide_def save_def update_view_def update_icell_def)

end
